theory Spec2Isabelle
  imports Main "HOL-Library.Sublist"
begin

section \<open>Data model (main.py, lines 19-55)\<close>

text \<open>
  The \<open>Literal[...]\<close> fields of the pydantic models are enumerations; each comes with the
  string it stands for, which is what an f-string inserts.
\<close>

datatype group = GroupA | GroupB

datatype objective = Awareness | Nurturing | Upselling

datatype interest_level = High | Medium | Low

datatype account_tone = Formal | Casual | Enthusiastic | Neutral

fun objective_str :: "objective \<Rightarrow> string" where
  "objective_str Awareness = ''awareness''"
| "objective_str Nurturing = ''nurturing''"
| "objective_str Upselling = ''upselling''"

fun interest_str :: "interest_level \<Rightarrow> string" where
  "interest_str High = ''high''"
| "interest_str Medium = ''medium''"
| "interest_str Low = ''low''"

record contact =
  name :: string
  email :: string
  job_title :: string
  group :: group

record account =
  account_name :: string
  industry :: string
  pain_points :: "string list"
  contacts :: "contact list"
  campaign_objective :: objective
  interest :: interest_level
  tone :: account_tone
  language :: string

record email_variant =
  subject :: string
  body :: string
  call_to_action :: string

record email_step =
  variants :: "email_variant list"

text \<open>
  \<open>Campaign.account_name\<close> is the field \<open>campaign_name\<close> here: a record field is a
  constant, and \<open>account_name\<close> is already the field of \<open>account\<close>.
\<close>

record campaign =
  campaign_name :: string
  emails :: "email_step list"

record campaign_request =
  accounts :: "account list"
  number_of_emails :: int

record campaign_response =
  campaigns :: "campaign list"

section \<open>Exceptions, evaluated values and the outside world\<close>

text \<open>
  Every \<open>raise\<close> of the source is a value \<open>Inl e\<close>. \<open>HTTPException\<close> carries its
  \<open>status_code\<close> and its \<open>detail\<close>; the other constructors are the exceptions that the
  Python runtime, pydantic and the Cohere client can raise inside the handlers.
\<close>

datatype exn =
    HTTPException nat string
  | IndexError
  | KeyError string
  | TypeError
  | ValidationError
  | OtherError string

text \<open>What \<open>eval\<close> can give back: a \<open>str\<close>, a \<open>dict\<close> with \<open>str\<close> keys, or anything else.\<close>

datatype pyval = PyStr string | PyDict "(string \<times> pyval) list" | PyOther

text \<open>
  The collaborators that are not code of this repository are parameters:
  \<^item> \<open>cohere_generate prompt s\<close> is
    \<open>client.generate(model=..., prompt=prompt, max_tokens=300, temperature=0.7).generations[0].text\<close>
    in service state \<open>s\<close>: an exception or the text, and the next service state;
  \<^item> \<open>py_eval text\<close> is \<open>eval(text.strip())\<close>: an exception or a value;
  \<^item> \<open>pydantic_str v\<close> is pydantic's validation of \<open>v\<close> for a field of type \<open>str\<close>;
  \<^item> \<open>exn_str e\<close> is \<open>str(e)\<close>;
  \<^item> \<open>random_choice r\<close> is \<open>random.choice(["A", "B"])\<close> in generator state \<open>r\<close>;
  \<^item> \<open>email_syntax_ok s\<close> is the check that \<open>EmailStr\<close> makes of an address.
\<close>

record ('s, 'r) env =
  cohere_generate :: "string \<Rightarrow> 's \<Rightarrow> (exn + string) \<times> 's"
  py_eval :: "string \<Rightarrow> exn + pyval"
  pydantic_str :: "pyval \<Rightarrow> string option"
  exn_str :: "exn \<Rightarrow> string"
  random_choice :: "'r \<Rightarrow> group \<times> 'r"
  email_syntax_ok :: "string \<Rightarrow> bool"

text \<open>
  The state a handler runs in: the service, the random generator, and the record of the
  calls made to the service so far (each prompt sent, with what came back), oldest first.
\<close>

record ('s, 'r) world =
  service :: 's
  rng :: 'r
  calls :: "(string \<times> (exn + string)) list"

section \<open>Strings\<close>

text \<open>\<open>str(i)\<close> for an \<open>int\<close>, and \<open>sep.join(xs)\<close>.\<close>

fun str_nat :: "nat \<Rightarrow> string" where
  "str_nat n = (if n < 10 then [''0123456789'' ! n]
                else str_nat (n div 10) @ [''0123456789'' ! (n mod 10)])"

declare str_nat.simps [simp del]

definition str_int :: "int \<Rightarrow> string" where
  "str_int i = (if i < 0 then CHR ''-'' # str_nat (nat (- i)) else str_nat (nat i))"

fun join :: "string \<Rightarrow> string list \<Rightarrow> string" where
  "join sep [] = []"
| "join sep [x] = x"
| "join sep (x # y # ys) = x @ sep @ join sep (y # ys)"

definition nl :: string where
  "nl = [CHR 0x0A]"

definition dquote :: string where
  "dquote = [CHR 0x22]"

section \<open>generate_email_content (main.py, lines 79-123)\<close>

text \<open>
  The f-string of lines 83-102, line by line, for an account whose first contact is \<open>c\<close>.
\<close>

definition prompt_text :: "account \<Rightarrow> contact \<Rightarrow> int \<Rightarrow> int \<Rightarrow> string \<Rightarrow> string" where
  "prompt_text acct c email_number total_emails tn =
     concat
       [nl,
        ''        Create a personalized email for the following business account:'', nl,
        ''        Company: '', account_name acct, nl,
        ''        Industry: '', industry acct, nl,
        ''        Pain Points: '', join '', '' (pain_points acct), nl,
        ''        Campaign Stage: Email '', str_int email_number, '' of '',
           str_int total_emails, nl,
        ''        Campaign Objective: '', objective_str (campaign_objective acct), nl,
        ''        Recipient Job Title: '', job_title c, nl,
        nl,
        ''        Interest: '', interest_str (interest acct), nl,
        ''        Tone: '', tn, nl,
        ''        Language: '', language acct, nl,
        nl,
        ''        Generate a JSON response with:'', nl,
        ''        1. An engaging and catchy subject line'', nl,
        ''        2. Personalized email body'', nl,
        ''        3. Clear call-to-action'', nl,
        nl,
        ''        Format the response as valid JSON with keys: '',
           dquote, ''subject'', dquote, '', '', dquote, ''body'', dquote, '', '',
           dquote, ''call_to_action'', dquote, nl,
        ''        '']"

text \<open>\<open>account.contacts[0]\<close> raises \<open>IndexError\<close> on an empty list.\<close>

definition prompt_of :: "account \<Rightarrow> int \<Rightarrow> int \<Rightarrow> string \<Rightarrow> exn + string" where
  "prompt_of acct email_number total_emails tn =
     (case contacts acct of
        [] \<Rightarrow> Inl IndexError
      | c # _ \<Rightarrow> Inr (prompt_text acct c email_number total_emails tn))"

text \<open>\<open>email_data[k]\<close>: a missing key of a dict is a \<open>KeyError\<close>.\<close>

fun getitem :: "pyval \<Rightarrow> string \<Rightarrow> exn + pyval" where
  "getitem (PyDict kvs) k = (case map_of kvs k of None \<Rightarrow> Inl (KeyError k) | Some v \<Rightarrow> Inr v)"
| "getitem _ k = Inl TypeError"

text \<open>\<open>EmailVariant(subject=a, body=b, call_to_action=c)\<close>: three fields of type \<open>str\<close>.\<close>

definition EmailVariant ::
  "('s, 'r) env \<Rightarrow> pyval \<Rightarrow> pyval \<Rightarrow> pyval \<Rightarrow> exn + email_variant" where
  "EmailVariant env a b c =
     (case pydantic_str env a of None \<Rightarrow> Inl ValidationError | Some s \<Rightarrow>
       (case pydantic_str env b of None \<Rightarrow> Inl ValidationError | Some bd \<Rightarrow>
         (case pydantic_str env c of None \<Rightarrow> Inl ValidationError | Some cta \<Rightarrow>
            Inr \<lparr>subject = s, body = bd, call_to_action = cta\<rparr>)))"

text \<open>Lines 110-117: the text of the reply, evaluated and read at the three keys.\<close>

definition variant_of_text :: "('s, 'r) env \<Rightarrow> string \<Rightarrow> exn + email_variant" where
  "variant_of_text env text =
     (case py_eval env text of Inl e \<Rightarrow> Inl e | Inr email_data \<Rightarrow>
       (case getitem email_data ''subject'' of Inl e \<Rightarrow> Inl e | Inr a \<Rightarrow>
         (case getitem email_data ''body'' of Inl e \<Rightarrow> Inl e | Inr b \<Rightarrow>
           (case getitem email_data ''call_to_action'' of Inl e \<Rightarrow> Inl e | Inr c \<Rightarrow>
              EmailVariant env a b c))))"

text \<open>Lines 104-117, the body of the \<open>try\<close>: one call to the service, then the parse.\<close>

definition try_variant ::
  "('s, 'r) env \<Rightarrow> string \<Rightarrow> ('s, 'r) world \<Rightarrow> (exn + email_variant) \<times> ('s, 'r) world" where
  "try_variant env prompt w =
     (case cohere_generate env prompt (service w) of (reply, s') \<Rightarrow>
        ((case reply of Inl e \<Rightarrow> Inl e | Inr text \<Rightarrow> variant_of_text env text),
         w\<lparr>service := s', calls := calls w @ [(prompt, reply)]\<rparr>))"

text \<open>
  The loop of line 82 over the tones still to do, with the list \<open>acc\<close> of variants built so
  far. Any exception of the \<open>try\<close> body becomes an \<open>HTTPException\<close> with status 500.
\<close>

fun tone_loop ::
  "('s, 'r) env \<Rightarrow> account \<Rightarrow> int \<Rightarrow> int \<Rightarrow> string list \<Rightarrow> email_variant list \<Rightarrow>
   ('s, 'r) world \<Rightarrow> (exn + email_variant list) \<times> ('s, 'r) world" where
  "tone_loop env acct email_number total_emails [] acc w = (Inr acc, w)"
| "tone_loop env acct email_number total_emails (tn # tns) acc w =
     (case prompt_of acct email_number total_emails tn of
        Inl e \<Rightarrow> (Inl e, w)
      | Inr prompt \<Rightarrow>
         (case try_variant env prompt w of
            (Inl e, w') \<Rightarrow>
              (Inl (HTTPException 500 (''Error generating email variant: '' @ exn_str env e)), w')
          | (Inr v, w') \<Rightarrow> tone_loop env acct email_number total_emails tns (acc @ [v]) w'))"

definition generate_email_content ::
  "('s, 'r) env \<Rightarrow> account \<Rightarrow> int \<Rightarrow> int \<Rightarrow> ('s, 'r) world \<Rightarrow>
   (exn + email_variant list) \<times> ('s, 'r) world" where
  "generate_email_content env acct email_number total_emails w =
     tone_loop env acct email_number total_emails [''formal'', ''casual''] [] w"

section \<open>generate_campaign (main.py, lines 125-142)\<close>

text \<open>Lines 129-131: every contact of the account gets a random group, in list order.\<close>

fun assign_groups :: "('s, 'r) env \<Rightarrow> contact list \<Rightarrow> 'r \<Rightarrow> contact list \<times> 'r" where
  "assign_groups env [] r = ([], r)"
| "assign_groups env (c # cs) r =
     (case random_choice env r of (g, r') \<Rightarrow>
        (case assign_groups env cs r' of (cs', r'') \<Rightarrow> (c\<lparr>group := g\<rparr> # cs', r'')))"

text \<open>\<open>range(n)\<close>: empty when \<open>n \<le> 0\<close>.\<close>

definition py_range :: "int \<Rightarrow> int list" where
  "py_range n = map int [0..<nat n]"

text \<open>The loop of lines 133-135 over the indices still to do.\<close>

fun emails_loop ::
  "('s, 'r) env \<Rightarrow> account \<Rightarrow> int \<Rightarrow> int list \<Rightarrow> email_step list \<Rightarrow> ('s, 'r) world \<Rightarrow>
   (exn + email_step list) \<times> ('s, 'r) world" where
  "emails_loop env acct n [] acc w = (Inr acc, w)"
| "emails_loop env acct n (i # js) acc w =
     (case generate_email_content env acct (i + 1) n w of
        (Inl e, w') \<Rightarrow> (Inl e, w')
      | (Inr vs, w') \<Rightarrow> emails_loop env acct n js (acc @ [\<lparr>variants = vs\<rparr>]) w')"

definition generate_campaign ::
  "('s, 'r) env \<Rightarrow> account \<Rightarrow> int \<Rightarrow> ('s, 'r) world \<Rightarrow> (exn + campaign) \<times> ('s, 'r) world" where
  "generate_campaign env acct n w =
     (case assign_groups env (contacts acct) (rng w) of (cs', r') \<Rightarrow>
        (case emails_loop env (acct\<lparr>contacts := cs'\<rparr>) n (py_range n) [] (w\<lparr>rng := r'\<rparr>) of
           (Inl e, w') \<Rightarrow>
             (Inl (HTTPException 500
                (''Error generating campaign for '' @ account_name (acct\<lparr>contacts := cs'\<rparr>)
                 @ '': '' @ exn_str env e)),
              w')
         | (Inr es, w') \<Rightarrow>
             (Inr \<lparr>campaign_name = account_name (acct\<lparr>contacts := cs'\<rparr>), emails = es\<rparr>, w')))"

section \<open>generate_campaigns (main.py, lines 150-166)\<close>

fun campaigns_loop ::
  "('s, 'r) env \<Rightarrow> int \<Rightarrow> account list \<Rightarrow> campaign list \<Rightarrow> ('s, 'r) world \<Rightarrow>
   (exn + campaign list) \<times> ('s, 'r) world" where
  "campaigns_loop env n [] acc w = (Inr acc, w)"
| "campaigns_loop env n (a # as) acc w =
     (case generate_campaign env a n w of
        (Inl e, w') \<Rightarrow> (Inl e, w')
      | (Inr c, w') \<Rightarrow> campaigns_loop env n as (acc @ [c]) w')"

definition generate_campaigns ::
  "('s, 'r) env \<Rightarrow> campaign_request \<Rightarrow> ('s, 'r) world \<Rightarrow>
   (exn + campaign_response) \<times> ('s, 'r) world" where
  "generate_campaigns env request w =
     (case campaigns_loop env (number_of_emails request) (accounts request) [] w of
        (Inl e, w') \<Rightarrow>
          (Inl (HTTPException 500 (''Error generating campaigns: '' @ exn_str env e)), w')
      | (Inr cs, w') \<Rightarrow> (Inr \<lparr>campaigns = cs\<rparr>, w'))"

section \<open>export_campaigns_csv (main.py, lines 173-217)\<close>

text \<open>
  The document is the list of the rows given to \<open>writer.writerow\<close>, in the order written;
  a row is the list of its fields. How the \<open>csv\<close> module quotes a field and ends a line,
  and the headers of the \<open>StreamingResponse\<close>, are outside the model.
\<close>

definition csv_header :: "string list" where
  "csv_header =
     [''Account Name'', ''Email Number'', ''Variant'', ''Subject'', ''Body'', ''Call to Action'']"

definition variant_row :: "campaign \<Rightarrow> nat \<Rightarrow> nat \<Rightarrow> email_variant \<Rightarrow> string list" where
  "variant_row c i variant_idx v =
     [campaign_name c,
      ''Email '' @ str_int (int i),
      ''Variant '' @ str_int (int variant_idx),
      subject v, body v, call_to_action v]"

text \<open>Lines 190-200; \<open>List.enumerate 1 xs\<close> is \<open>enumerate(xs, 1)\<close>.\<close>

definition email_rows :: "campaign \<Rightarrow> nat \<Rightarrow> email_step \<Rightarrow> string list list" where
  "email_rows c i e = map (\<lambda>(variant_idx, v). variant_row c i variant_idx v)
                          (List.enumerate 1 (variants e))"

definition campaign_rows :: "campaign \<Rightarrow> string list list" where
  "campaign_rows c = concat (map (\<lambda>(i, e). email_rows c i e) (List.enumerate 1 (emails c)))"

definition csv_rows :: "campaign_response \<Rightarrow> string list list" where
  "csv_rows resp = csv_header # concat (map campaign_rows (campaigns resp))"

definition export_campaigns_csv ::
  "('s, 'r) env \<Rightarrow> campaign_request \<Rightarrow> ('s, 'r) world \<Rightarrow>
   (exn + string list list) \<times> ('s, 'r) world" where
  "export_campaigns_csv env request w =
     (case generate_campaigns env request w of
        (Inl e, w') \<Rightarrow>
          (Inl (HTTPException 500 (''Error exporting campaigns to CSV: '' @ exn_str env e)), w')
      | (Inr campaigns_response, w') \<Rightarrow> (Inr (csv_rows campaigns_response), w'))"

section \<open>health_check, get_cohere_client and the environment (main.py, lines 58-77, 224-231)\<close>

record process =
  environ :: "string \<rightharpoonup> string"
  now_isoformat :: string

record health =
  status :: string
  timestamp :: string
  version :: string
  cohere_api_configured :: bool

text \<open>\<open>os.getenv("COHERE_API_KEY")\<close> is truthy: the variable is set and not empty.\<close>

definition api_key_present :: "process \<Rightarrow> bool" where
  "api_key_present p =
     (case environ p ''COHERE_API_KEY'' of None \<Rightarrow> False | Some k \<Rightarrow> k \<noteq> [])"

text \<open>Lines 59-63: startup raises \<open>ValueError\<close> when the key is not there.\<close>

definition lifespan :: "process \<Rightarrow> exn + unit" where
  "lifespan p =
     (if \<not> api_key_present p
      then Inl (OtherError ''COHERE_API_KEY environment variable is not set'')
      else Inr ())"

text \<open>Lines 73-77; the client is represented by the key it is built from.\<close>

definition get_cohere_client :: "process \<Rightarrow> exn + string" where
  "get_cohere_client p =
     (case environ p ''COHERE_API_KEY'' of
        None \<Rightarrow> Inl (HTTPException 500 ''Cohere API key not found'')
      | Some api_key \<Rightarrow>
          if api_key = [] then Inl (HTTPException 500 ''Cohere API key not found'')
          else Inr api_key)"

definition health_check :: "process \<Rightarrow> exn + health" where
  "health_check p =
     Inr \<lparr>status = ''healthy'', timestamp = now_isoformat p, version = ''1.0.0'',
          cohere_api_configured = True\<rparr>"

text \<open>
  The status the framework answers with: 200 when the handler returns, the
  \<open>status_code\<close> of an \<open>HTTPException\<close>, 422 for a body that fails validation, and 500 for
  any other exception.
\<close>

fun http_status :: "exn + 'a \<Rightarrow> nat" where
  "http_status (Inr _) = 200"
| "http_status (Inl (HTTPException code _)) = code"
| "http_status (Inl ValidationError) = 422"
| "http_status (Inl _) = 500"

section \<open>Request validation (main.py, lines 20-52)\<close>

text \<open>
  A raw request is a body with the shape of \<open>CampaignRequest\<close>: every required field is
  there and has its JSON type; a \<open>Literal\<close> field is still a string, and a field with a
  default may be absent. The \<open>Field(...)\<close> declarations are the checks.
\<close>

record raw_contact =
  raw_name :: string
  raw_email :: string
  raw_job_title :: string
  raw_group :: "string option"

record raw_account =
  raw_account_name :: string
  raw_industry :: string
  raw_pain_points :: "string list"
  raw_contacts :: "raw_contact list"
  raw_campaign_objective :: string
  raw_interest :: "string option"
  raw_tone :: "string option"
  raw_language :: string

record raw_request =
  raw_accounts :: "raw_account list"
  raw_number_of_emails :: int

definition parse_group :: "string option \<Rightarrow> group option" where
  "parse_group g =
     (case g of None \<Rightarrow> Some GroupA
      | Some s \<Rightarrow> if s = ''A'' then Some GroupA else if s = ''B'' then Some GroupB else None)"

definition parse_objective :: "string \<Rightarrow> objective option" where
  "parse_objective s =
     (if s = ''awareness'' then Some Awareness
      else if s = ''nurturing'' then Some Nurturing
      else if s = ''upselling'' then Some Upselling else None)"

definition parse_interest :: "string option \<Rightarrow> interest_level option" where
  "parse_interest g =
     (case g of None \<Rightarrow> Some Medium
      | Some s \<Rightarrow> if s = ''high'' then Some High else if s = ''medium'' then Some Medium
                  else if s = ''low'' then Some Low else None)"

definition parse_tone :: "string option \<Rightarrow> account_tone option" where
  "parse_tone g =
     (case g of None \<Rightarrow> Some Neutral
      | Some s \<Rightarrow> if s = ''formal'' then Some Formal else if s = ''casual'' then Some Casual
                  else if s = ''enthusiastic'' then Some Enthusiastic
                  else if s = ''neutral'' then Some Neutral else None)"

text \<open>The constraints of a model object, as the \<open>Field\<close> declarations give them.\<close>

definition valid_contact :: "('s, 'r) env \<Rightarrow> contact \<Rightarrow> bool" where
  "valid_contact env c \<longleftrightarrow>
     1 \<le> length (name c) \<and> length (name c) \<le> 100 \<and>
     email_syntax_ok env (email c) \<and>
     1 \<le> length (job_title c) \<and> length (job_title c) \<le> 100"

definition valid_account :: "('s, 'r) env \<Rightarrow> account \<Rightarrow> bool" where
  "valid_account env a \<longleftrightarrow>
     1 \<le> length (account_name a) \<and> length (account_name a) \<le> 200 \<and>
     1 \<le> length (industry a) \<and> length (industry a) \<le> 100 \<and>
     1 \<le> length (pain_points a) \<and> length (pain_points a) \<le> 5 \<and>
     1 \<le> length (contacts a) \<and> list_all (valid_contact env) (contacts a) \<and>
     1 \<le> length (language a) \<and> length (language a) \<le> 200"

definition valid_request :: "('s, 'r) env \<Rightarrow> campaign_request \<Rightarrow> bool" where
  "valid_request env request \<longleftrightarrow>
     1 \<le> length (accounts request) \<and> length (accounts request) \<le> 10 \<and>
     list_all (valid_account env) (accounts request) \<and>
     0 < number_of_emails request \<and> number_of_emails request \<le> 10"

definition validate_contact :: "('s, 'r) env \<Rightarrow> raw_contact \<Rightarrow> contact option" where
  "validate_contact env rc =
     (case parse_group (raw_group rc) of None \<Rightarrow> None
      | Some g \<Rightarrow>
         (let c = \<lparr>name = raw_name rc, email = raw_email rc, job_title = raw_job_title rc,
                   group = g\<rparr>
          in if valid_contact env c then Some c else None))"

definition validate_account :: "('s, 'r) env \<Rightarrow> raw_account \<Rightarrow> account option" where
  "validate_account env ra =
     (case those (map (validate_contact env) (raw_contacts ra)) of None \<Rightarrow> None | Some cs \<Rightarrow>
       (case parse_objective (raw_campaign_objective ra) of None \<Rightarrow> None | Some ob \<Rightarrow>
         (case parse_interest (raw_interest ra) of None \<Rightarrow> None | Some intr \<Rightarrow>
           (case parse_tone (raw_tone ra) of None \<Rightarrow> None | Some tn \<Rightarrow>
             (let a = \<lparr>account_name = raw_account_name ra, industry = raw_industry ra,
                       pain_points = raw_pain_points ra, contacts = cs,
                       campaign_objective = ob, interest = intr, tone = tn,
                       language = raw_language ra\<rparr>
              in (if valid_account env a then Some a else None))))))"

definition validate_request :: "('s, 'r) env \<Rightarrow> raw_request \<Rightarrow> exn + campaign_request" where
  "validate_request env rr =
     (case those (map (validate_account env) (raw_accounts rr)) of
        None \<Rightarrow> Inl ValidationError
      | Some as \<Rightarrow>
         (let request = \<lparr>accounts = as, number_of_emails = raw_number_of_emails rr\<rparr>
          in if valid_request env request then Inr request else Inl ValidationError))"

text \<open>
  The two routes: the body is validated against \<open>CampaignRequest\<close> before the handler is
  called, and the handler is not called when validation fails. The client that
  \<open>Depends(get_cohere_client)\<close> provides is the service of the environment: the routes are
  modelled for a process whose API key is set, as \<open>lifespan\<close> requires at startup.
\<close>

definition post_generate_campaigns ::
  "('s, 'r) env \<Rightarrow> raw_request \<Rightarrow> ('s, 'r) world \<Rightarrow>
   (exn + campaign_response) \<times> ('s, 'r) world" where
  "post_generate_campaigns env rr w =
     (case validate_request env rr of
        Inl e \<Rightarrow> (Inl e, w)
      | Inr request \<Rightarrow> generate_campaigns env request w)"

definition post_export_campaigns_csv ::
  "('s, 'r) env \<Rightarrow> raw_request \<Rightarrow> ('s, 'r) world \<Rightarrow>
   (exn + string list list) \<times> ('s, 'r) world" where
  "post_export_campaigns_csv env rr w =
     (case validate_request env rr of
        Inl e \<Rightarrow> (Inl e, w)
      | Inr request \<Rightarrow> export_campaigns_csv env request w)"

section \<open>What the claims speak about\<close>










section \<open>A concrete environment\<close>

text \<open>
  A service that counts down: in state \<open>s > 0\<close> it answers with the text of the number \<open>s\<close>
  and goes to \<open>s - 1\<close>; in state \<open>0\<close> it fails. The text \<open>13\<close> evaluates to a dict without
  \<open>body\<close>, any other text to a dict with the three keys. \<open>str\<close> of an \<open>HTTPException\<close> is
  its status code, a colon and its detail.
\<close>

fun demo_str :: "exn \<Rightarrow> string" where
  "demo_str (HTTPException code d) = str_nat code @ '': '' @ d"
| "demo_str IndexError = ''list index out of range''"
| "demo_str (KeyError k) = [CHR 0x27] @ k @ [CHR 0x27]"
| "demo_str TypeError = ''object is not subscriptable''"
| "demo_str ValidationError = ''validation error''"
| "demo_str (OtherError m) = m"

definition demo_generate :: "string \<Rightarrow> nat \<Rightarrow> (exn + string) \<times> nat" where
  "demo_generate prompt s =
     (if s = 0 then (Inl (OtherError ''service unavailable''), 0) else (Inr (str_nat s), s - 1))"

definition demo_eval :: "string \<Rightarrow> exn + pyval" where
  "demo_eval text =
     (if text = ''13'' then Inr (PyDict [(''subject'', PyStr ''Hello'')])
      else Inr (PyDict [(''subject'', PyStr (''Subject '' @ text)),
                        (''body'', PyStr (''Body '' @ text)),
                        (''call_to_action'', PyStr (''Act '' @ text))]))"

fun demo_pydantic_str :: "pyval \<Rightarrow> string option" where
  "demo_pydantic_str (PyStr s) = Some s"
| "demo_pydantic_str _ = None"

definition demo_choice :: "bool \<Rightarrow> group \<times> bool" where
  "demo_choice r = (if r then GroupA else GroupB, \<not> r)"

definition demo_env :: "(nat, bool) env" where
  "demo_env =
     \<lparr>cohere_generate = demo_generate, py_eval = demo_eval, pydantic_str = demo_pydantic_str,
      exn_str = demo_str, random_choice = demo_choice,
      email_syntax_ok = (\<lambda>s. CHR ''@'' \<in> set s)\<rparr>"





definition demo_world :: "nat \<Rightarrow> (nat, bool) world" where
  "demo_world k = \<lparr>service = k, rng = True, calls = []\<rparr>"


text \<open>More concrete inputs: a request of one account and one email, and raw requests.\<close>

definition demo_raw_contact :: raw_contact where
  "demo_raw_contact =
     \<lparr>raw_name = ''Ann'', raw_email = ''ann@acme.example'', raw_job_title = ''CTO'',
      raw_group = None\<rparr>"

definition demo_raw_account :: raw_account where
  "demo_raw_account =
     \<lparr>raw_account_name = ''Acme'', raw_industry = ''Retail'',
      raw_pain_points = [''churn'', ''cost''], raw_contacts = [demo_raw_contact],
      raw_campaign_objective = ''awareness'', raw_interest = None, raw_tone = None,
      raw_language = ''English''\<rparr>"

definition six_pain_points_request :: raw_request where
  "six_pain_points_request =
     \<lparr>raw_accounts =
        [demo_raw_account\<lparr>raw_pain_points := [''a'', ''b'', ''c'', ''d'', ''e'', ''f'']\<rparr>],
      raw_number_of_emails = 2\<rparr>"

text \<open>A process without the API key in its environment.\<close>

definition unconfigured_process :: process where
  "unconfigured_process = \<lparr>environ = Map.empty, now_isoformat = ''2026-01-01T00:00:00''\<rparr>"





section \<open>The shape of a result\<close>







section \<open>The calls of a run\<close>













subsection \<open>A failed run: its last call is the one that failed\<close>









section \<open>Positions in the sequence of prompts\<close>








section \<open>What a run does not depend on\<close>











section \<open>The API key\<close>

text \<open>\<open>get_cohere_client\<close> gives a client exactly when the key is present.\<close>

lemma get_cohere_client_present:
  "(\<exists>k. get_cohere_client p = Inr k) \<longleftrightarrow> api_key_present p"
  by (auto simp: get_cohere_client_def api_key_present_def split: option.splits)

lemma get_cohere_client_absent:
  "\<not> api_key_present p \<Longrightarrow>
   get_cohere_client p = Inl (HTTPException 500 ''Cohere API key not found'')"
  by (auto simp: get_cohere_client_def api_key_present_def split: option.splits)

section \<open>Validation\<close>

lemma those_map_Some:
  "those (map f xs) = Some ys \<Longrightarrow> list_all2 (\<lambda>x y. f x = Some y) xs ys"
  by (induction xs arbitrary: ys) (auto split: option.splits)

lemma validate_account_Some:
  "validate_account env ra = Some a \<Longrightarrow>
   valid_account env a \<and> pain_points a = raw_pain_points ra \<and>
   length (contacts a) = length (raw_contacts ra)"
  by (auto simp: validate_account_def Let_def list_all2_lengthD
           split: option.splits if_splits dest!: those_map_Some)

lemma validate_request_Inr:
  assumes "validate_request env rr = Inr request"
  shows "valid_request env request \<and> number_of_emails request = raw_number_of_emails rr \<and>
     list_all2 (\<lambda>ra a. validate_account env ra = Some a) (raw_accounts rr) (accounts request)"
  using assms
  by (auto simp: validate_request_def Let_def split: option.splits if_splits
           dest!: those_map_Some)

lemma validate_request_error:
  "validate_request env rr = Inl e \<Longrightarrow> e = ValidationError"
  by (auto simp: validate_request_def Let_def split: option.splits if_splits)

section \<open>Positions in the exported rows\<close>








section \<open>The claims\<close>













text \<open>
  C6, as amended. Whatever the environment of the process, \<open>health_check\<close> returns (status
  200) the payload with \<open>status = healthy\<close>, the current time as \<open>timestamp\<close>,
  \<open>version = 1.0.0\<close> and \<open>cohere_api_configured = True\<close>.
\<close>

theorem health_check_static:
  "health_check p =
     Inr \<lparr>status = ''healthy'', timestamp = now_isoformat p, version = ''1.0.0'',
          cohere_api_configured = True\<rparr> \<and>
   http_status (health_check p) = 200"
  by (simp add: health_check_def)

text \<open>
  C6 as stated fails: in a process without the API key, the flag is still \<open>True\<close>.
\<close>

theorem health_flag_without_key:
  "\<not> api_key_present unconfigured_process \<and>
   health_check unconfigured_process =
     Inr \<lparr>status = ''healthy'', timestamp = ''2026-01-01T00:00:00'', version = ''1.0.0'',
          cohere_api_configured = True\<rparr>"
  by (simp add: api_key_present_def unconfigured_process_def health_check_def)

text \<open>
  C7. A raw request with 0 or 11 accounts, or an account with 0 or 6 pain points or with 0
  contacts, or with \<open>number_of_emails\<close> outside 1..10, fails validation; both routes answer
  with the validation error and leave the world as it was: no call to the service is made.
\<close>

theorem boundary_requests_rejected:
  assumes "length (raw_accounts rr) = 0 \<or> length (raw_accounts rr) = 11 \<or>
     (\<exists>ra\<in>set (raw_accounts rr).
        length (raw_pain_points ra) = 0 \<or> length (raw_pain_points ra) = 6 \<or>
        length (raw_contacts ra) = 0) \<or>
     raw_number_of_emails rr < 1 \<or> 10 < raw_number_of_emails rr"
  shows "validate_request env rr = Inl ValidationError \<and>
     post_generate_campaigns env rr w = (Inl ValidationError, w) \<and>
     post_export_campaigns_csv env rr w = (Inl ValidationError, w)"
proof -
  have "validate_request env rr = Inl ValidationError"
  proof (cases "validate_request env rr")
    case (Inl e)
    then show ?thesis by (simp add: validate_request_error)
  next
    case (Inr request)
    from validate_request_Inr [OF Inr] have
      v: "valid_request env request" and
      n: "number_of_emails request = raw_number_of_emails rr" and
      l: "list_all2 (\<lambda>ra a. validate_account env ra = Some a) (raw_accounts rr) (accounts request)"
      by blast+
    from l have len: "length (raw_accounts rr) = length (accounts request)"
      by (rule list_all2_lengthD)
    have "False" if ra: "ra \<in> set (raw_accounts rr)"
      and bad: "length (raw_pain_points ra) = 0 \<or> length (raw_pain_points ra) = 6 \<or>
                length (raw_contacts ra) = 0" for ra
    proof -
      from ra obtain i where i: "i < length (raw_accounts rr)" "raw_accounts rr ! i = ra"
        by (auto simp: in_set_conv_nth)
      from list_all2_nthD [OF l i(1)] i(2)
      have "validate_account env ra = Some (accounts request ! i)" by simp
      moreover from i(1) len have "accounts request ! i \<in> set (accounts request)" by simp
      ultimately obtain a where
        a: "a \<in> set (accounts request)" "validate_account env ra = Some a"
        by blast
      from a(1) v have "valid_account env a"
        by (simp add: valid_request_def list_all_iff)
      with validate_account_Some [OF a(2)] bad show False
        by (auto simp: valid_account_def)
    qed
    with assms v n len show ?thesis
      by (auto simp: valid_request_def)
  qed
  then show ?thesis
    by (simp add: post_generate_campaigns_def post_export_campaigns_csv_def)
qed

theorem boundary_requests_rejected_witness:
  "(\<exists>ra\<in>set (raw_accounts six_pain_points_request). length (raw_pain_points ra) = 6) \<and>
   validate_request demo_env six_pain_points_request = Inl ValidationError \<and>
   post_generate_campaigns demo_env six_pain_points_request (demo_world 8) =
     (Inl ValidationError, demo_world 8) \<and>
   post_export_campaigns_csv demo_env six_pain_points_request (demo_world 8) =
     (Inl ValidationError, demo_world 8)"
proof -
  have h: "\<exists>ra\<in>set (raw_accounts six_pain_points_request). length (raw_pain_points ra) = 6"
    by (simp add: six_pain_points_request_def)
  then have "length (raw_accounts six_pain_points_request) = 0 \<or>
     length (raw_accounts six_pain_points_request) = 11 \<or>
     (\<exists>ra\<in>set (raw_accounts six_pain_points_request).
        length (raw_pain_points ra) = 0 \<or> length (raw_pain_points ra) = 6 \<or>
        length (raw_contacts ra) = 0) \<or>
     raw_number_of_emails six_pain_points_request < 1 \<or>
     10 < raw_number_of_emails six_pain_points_request"
    by blast
  from boundary_requests_rejected [OF this, of demo_env "demo_world 8"] h show ?thesis
    by simp
qed








end
